theory Spec2Isabelle
  imports Complex_Main
begin

section \<open>JavaScript numbers\<close>

text \<open>
  The analytics hook computes with JavaScript numbers. They are modelled as the reals
  extended by the three special values of IEEE arithmetic, so that a division by zero is
  visible in the result instead of being hidden by HOL's total division: \<open>x / 0\<close> is
  \<open>PInf\<close>, \<open>NInf\<close> or \<open>NaN\<close>. Rounding, overflow of large finite values and the sign
  of zero are not modelled: finite values are exact reals.
\<close>

datatype jsnum = Fin real | PInf | NInf | NaN

fun is_finite :: "jsnum \<Rightarrow> bool" where
  "is_finite (Fin a) = True"
| "is_finite PInf = False"
| "is_finite NInf = False"
| "is_finite NaN = False"

fun jneg :: "jsnum \<Rightarrow> jsnum" where
  "jneg (Fin a) = Fin (- a)"
| "jneg PInf = NInf"
| "jneg NInf = PInf"
| "jneg NaN = NaN"

fun jadd :: "jsnum \<Rightarrow> jsnum \<Rightarrow> jsnum" where
  "jadd (Fin a) (Fin b) = Fin (a + b)"
| "jadd NaN b = NaN"
| "jadd a NaN = NaN"
| "jadd PInf NInf = NaN"
| "jadd NInf PInf = NaN"
| "jadd PInf b = PInf"
| "jadd a PInf = PInf"
| "jadd NInf b = NInf"
| "jadd a NInf = NInf"

definition jsub :: "jsnum \<Rightarrow> jsnum \<Rightarrow> jsnum" where
  "jsub a b = jadd a (jneg b)"

fun jmul :: "jsnum \<Rightarrow> jsnum \<Rightarrow> jsnum" where
  "jmul (Fin a) (Fin b) = Fin (a * b)"
| "jmul NaN b = NaN"
| "jmul a NaN = NaN"
| "jmul (Fin a) PInf = (if a = 0 then NaN else if 0 < a then PInf else NInf)"
| "jmul (Fin a) NInf = (if a = 0 then NaN else if 0 < a then NInf else PInf)"
| "jmul PInf (Fin b) = (if b = 0 then NaN else if 0 < b then PInf else NInf)"
| "jmul NInf (Fin b) = (if b = 0 then NaN else if 0 < b then NInf else PInf)"
| "jmul PInf PInf = PInf"
| "jmul PInf NInf = NInf"
| "jmul NInf PInf = NInf"
| "jmul NInf NInf = PInf"

fun jdiv :: "jsnum \<Rightarrow> jsnum \<Rightarrow> jsnum" where
  "jdiv (Fin a) (Fin b) =
     (if b \<noteq> 0 then Fin (a / b) else if a = 0 then NaN else if 0 < a then PInf else NInf)"
| "jdiv NaN b = NaN"
| "jdiv a NaN = NaN"
| "jdiv (Fin a) PInf = Fin 0"
| "jdiv (Fin a) NInf = Fin 0"
| "jdiv PInf (Fin b) = (if 0 \<le> b then PInf else NInf)"
| "jdiv NInf (Fin b) = (if 0 \<le> b then NInf else PInf)"
| "jdiv PInf PInf = NaN"
| "jdiv PInf NInf = NaN"
| "jdiv NInf PInf = NaN"
| "jdiv NInf NInf = NaN"

text \<open>\<^verbatim>\<open>Math.sqrt\<close>, \<^verbatim>\<open>Math.pow(v, 2)\<close>, \<^verbatim>\<open>Math.abs\<close>, \<^verbatim>\<open>Math.min\<close> and \<^verbatim>\<open>Math.max\<close>.\<close>

fun jsqrt :: "jsnum \<Rightarrow> jsnum" where
  "jsqrt (Fin a) = (if a < 0 then NaN else Fin (sqrt a))"
| "jsqrt PInf = PInf"
| "jsqrt NInf = NaN"
| "jsqrt NaN = NaN"

definition jpow2 :: "jsnum \<Rightarrow> jsnum" where
  "jpow2 v = jmul v v"

fun jabs :: "jsnum \<Rightarrow> jsnum" where
  "jabs (Fin a) = Fin \<bar>a\<bar>"
| "jabs PInf = PInf"
| "jabs NInf = PInf"
| "jabs NaN = NaN"

text \<open>The comparison \<^verbatim>\<open>a < b\<close>: false as soon as one side is \<^verbatim>\<open>NaN\<close>.\<close>

fun jlt :: "jsnum \<Rightarrow> jsnum \<Rightarrow> bool" where
  "jlt (Fin a) (Fin b) = (a < b)"
| "jlt NaN b = False"
| "jlt a NaN = False"
| "jlt a NInf = False"
| "jlt PInf b = False"
| "jlt NInf b = True"
| "jlt a PInf = True"

definition jgt :: "jsnum \<Rightarrow> jsnum \<Rightarrow> bool" where
  "jgt a b = jlt b a"

fun jmin :: "jsnum \<Rightarrow> jsnum \<Rightarrow> jsnum" where
  "jmin NaN b = NaN"
| "jmin a NaN = NaN"
| "jmin a b = (if jlt b a then b else a)"

fun jmax :: "jsnum \<Rightarrow> jsnum \<Rightarrow> jsnum" where
  "jmax NaN b = NaN"
| "jmax a NaN = NaN"
| "jmax a b = (if jlt a b then b else a)"

text \<open>\<^verbatim>\<open>Math.min(...arr)\<close> and \<^verbatim>\<open>Math.max(...arr)\<close>; on no argument they are
  \<^verbatim>\<open>Infinity\<close> and \<^verbatim>\<open>-Infinity\<close>.\<close>

definition Math_min :: "jsnum list \<Rightarrow> jsnum" where
  "Math_min arr = foldl jmin PInf arr"

definition Math_max :: "jsnum list \<Rightarrow> jsnum" where
  "Math_max arr = foldl jmax NInf arr"

text \<open>A number used as a condition: \<^verbatim>\<open>0\<close> and \<^verbatim>\<open>NaN\<close> are falsy.\<close>

fun truthy :: "jsnum \<Rightarrow> bool" where
  "truthy (Fin a) = (a \<noteq> 0)"
| "truthy PInf = True"
| "truthy NInf = True"
| "truthy NaN = False"

section \<open>Arrays\<close>

text \<open>
  \<^verbatim>\<open>arr[i]\<close> on an array of numbers, used in arithmetic: outside the array it is
  \<^verbatim>\<open>undefined\<close>, which arithmetic turns into \<^verbatim>\<open>NaN\<close>.
\<close>

definition item :: "jsnum list \<Rightarrow> int \<Rightarrow> jsnum" where
  "item arr i = (if 0 \<le> i \<and> i < int (length arr) then arr ! nat i else NaN)"

text \<open>
  \<^verbatim>\<open>Array.prototype.sort(cmp)\<close> is a stable sort: an element moves behind another one
  only when the comparator is positive on the pair. It is modelled by insertion from the
  right, which yields the stable order for every comparator that is a consistent
  ordering; for other comparators JavaScript leaves the order to the implementation.
\<close>

fun js_insert :: "('a \<Rightarrow> 'a \<Rightarrow> jsnum) \<Rightarrow> 'a \<Rightarrow> 'a list \<Rightarrow> 'a list" where
  "js_insert cmp x [] = [x]"
| "js_insert cmp x (y # ys) =
     (if jlt (Fin 0) (cmp x y) then y # js_insert cmp x ys else x # y # ys)"

fun js_sort :: "('a \<Rightarrow> 'a \<Rightarrow> jsnum) \<Rightarrow> 'a list \<Rightarrow> 'a list" where
  "js_sort cmp [] = []"
| "js_sort cmp (x # xs) = js_insert cmp x (js_sort cmp xs)"

text \<open>\<^verbatim>\<open>arr.map((v, i) => ...)\<close> and \<^verbatim>\<open>arr.reduce((acc, v, i) => ...)\<close> see the index.\<close>

definition indexed :: "'a list \<Rightarrow> ('a \<times> int) list" where
  "indexed arr = zip arr (map int [0..<length arr])"

section \<open>The statistics helpers of the hook\<close>

definition mean :: "jsnum list \<Rightarrow> jsnum" where
  "mean arr =
     (if length arr \<noteq> 0 then jdiv (foldl jadd (Fin 0) arr) (Fin (real (length arr)))
      else Fin 0)"

definition numcmp :: "jsnum \<Rightarrow> jsnum \<Rightarrow> jsnum" where
  "numcmp a b = jsub a b"

definition median :: "jsnum list \<Rightarrow> jsnum" where
  "median arr =
     (if length arr = 0 then Fin 0
      else let sorted = js_sort numcmp arr;
               mid = int (length sorted) div 2
           in if length sorted mod 2 \<noteq> 0 then item sorted mid
              else jdiv (jadd (item sorted (mid - 1)) (item sorted mid)) (Fin 2))"

definition standardDeviation :: "jsnum list \<Rightarrow> jsnum" where
  "standardDeviation arr =
     (if length arr = 0 then Fin 0
      else let avg = mean arr;
               squareDiffs = map (\<lambda>v. jpow2 (jsub v avg)) arr
           in jsqrt (mean squareDiffs))"

definition percentile :: "jsnum list \<Rightarrow> real \<Rightarrow> jsnum" where
  "percentile arr p =
     (if length arr = 0 then Fin 0
      else let sorted = js_sort numcmp arr;
               index = (p / 100) * (real (length sorted) - 1);
               lower = \<lfloor>index\<rfloor>;
               upper = \<lceil>index\<rceil>
           in if lower = upper then item sorted lower
              else jadd (jmul (item sorted lower) (Fin (real_of_int upper - index)))
                        (jmul (item sorted upper) (Fin (index - real_of_int lower))))"

definition correlation :: "jsnum list \<Rightarrow> jsnum list \<Rightarrow> jsnum" where
  "correlation x y =
     (if length x = 0 \<or> length y = 0 \<or> length x \<noteq> length y then Fin 0
      else let meanX = mean x;
               meanY = mean y;
               numerator =
                 foldl (\<lambda>sum (xi, i). jadd sum (jmul (jsub xi meanX) (jsub (item y i) meanY)))
                   (Fin 0) (indexed x);
               denominator =
                 jsqrt (jmul
                   (foldl (\<lambda>sum xi. jadd sum (jpow2 (jsub xi meanX))) (Fin 0) x)
                   (foldl (\<lambda>sum yi. jadd sum (jpow2 (jsub yi meanY))) (Fin 0) y))
           in if truthy denominator then jdiv numerator denominator else Fin 0)"

section \<open>Strings and dates of the JavaScript library\<close>

text \<open>The decimal digits of a natural number, as \<^verbatim>\<open>String(n)\<close> and template strings print it.\<close>

definition digit_char :: "nat \<Rightarrow> char" where
  "digit_char d = ''0123456789'' ! d"

fun digits_of :: "nat \<Rightarrow> string" where
  "digits_of n = (if n < 10 then [digit_char n] else digits_of (n div 10) @ [digit_char (n mod 10)])"

declare digits_of.simps [simp del]

text \<open>An integer in a template string: a minus sign in front of a negative one.\<close>

definition int_string :: "int \<Rightarrow> string" where
  "int_string i = (if i < 0 then CHR ''-'' # digits_of (nat (- i)) else digits_of (nat i))"

text \<open>\<^verbatim>\<open>String.prototype.padStart(w, '0')\<close> on the digits of a natural number.\<close>

definition pad_digits :: "nat \<Rightarrow> nat \<Rightarrow> string" where
  "pad_digits w n = replicate (w - length (digits_of n)) (CHR ''0'') @ digits_of n"

text \<open>
  The order of strings by character code. It is the order of the default
  \<^verbatim>\<open>Array.prototype.sort()\<close>, and on strings made of digits and hyphens, the only ones
  compared by \<^verbatim>\<open>localeCompare\<close> in the hook, it is the order of \<^verbatim>\<open>localeCompare\<close> too.
  The result is negative, zero or positive.
\<close>

fun code_unit_compare :: "string \<Rightarrow> string \<Rightarrow> int" where
  "code_unit_compare [] [] = 0"
| "code_unit_compare [] (b # bs) = - 1"
| "code_unit_compare (a # as) [] = 1"
| "code_unit_compare (a # as) (b # bs) =
     (if (of_char a :: nat) < of_char b then - 1
      else if (of_char b :: nat) < of_char a then 1
      else code_unit_compare as bs)"

definition localeCompare :: "string \<Rightarrow> string \<Rightarrow> jsnum" where
  "localeCompare a b = Fin (real_of_int (code_unit_compare a b))"

definition default_compare :: "string \<Rightarrow> string \<Rightarrow> jsnum" where
  "default_compare a b = Fin (real_of_int (code_unit_compare a b))"

text \<open>\<^verbatim>\<open>key.includes(sub)\<close>: \<open>sub\<close> occurs in \<open>key\<close>.\<close>

fun starts_with :: "string \<Rightarrow> string \<Rightarrow> bool" where
  "starts_with s [] = True"
| "starts_with [] (c # cs) = False"
| "starts_with (a # as) (c # cs) = (a = c \<and> starts_with as cs)"

fun str_includes :: "string \<Rightarrow> string \<Rightarrow> bool" where
  "str_includes [] sub = starts_with [] sub"
| "str_includes (a # as) sub = (starts_with (a # as) sub \<or> str_includes as sub)"

text \<open>
  A \<^verbatim>\<open>Date\<close> is its time value, the milliseconds since 1970-01-01T00:00Z. Only valid dates
  are modelled: a \<^verbatim>\<open>created_at\<close> is either missing (\<^verbatim>\<open>null\<close>) or a timestamp that
  \<^verbatim>\<open>new Date\<close> parses. The local time zone is taken to be UTC, so that the local getters
  and the UTC ones agree and a day always has 24 hours.
\<close>

type_synonym date = int

definition ms_per_day :: int where
  "ms_per_day = 24 * 60 * 60 * 1000"

definition day_number :: "date \<Rightarrow> int" where
  "day_number t = t div ms_per_day"

text \<open>Day of the week, 0 for Sunday; 1970-01-01 was a Thursday.\<close>

definition getDay :: "date \<Rightarrow> int" where
  "getDay t = (day_number t + 4) mod 7"

definition getHours :: "date \<Rightarrow> int" where
  "getHours t = (t div (60 * 60 * 1000)) mod 24"

text \<open>
  The proleptic Gregorian calendar: year, month (1 to 12) and day of the month of a day
  number, and back. These are the computations of the \<^verbatim>\<open>Date\<close> library, not code of
  the repository; they follow the usual era-based algorithm, a year starting in March.
\<close>

definition civil_from_days :: "int \<Rightarrow> int \<times> int \<times> int" where
  "civil_from_days z =
     (let z1 = z + 719468;
          era = z1 div 146097;
          doe = z1 mod 146097;
          yoe = (doe - doe div 1460 + doe div 36524 - doe div 146096) div 365;
          y = yoe + era * 400;
          doy = doe - (365 * yoe + yoe div 4 - yoe div 100);
          mp = (5 * doy + 2) div 153;
          d = doy - (153 * mp + 2) div 5 + 1;
          m = (if mp < 10 then mp + 3 else mp - 9)
      in (if m \<le> 2 then y + 1 else y, m, d))"

definition days_from_civil :: "int \<Rightarrow> int \<Rightarrow> int \<Rightarrow> int" where
  "days_from_civil y m d =
     (let y1 = (if m \<le> 2 then y - 1 else y);
          era = y1 div 400;
          yoe = y1 mod 400;
          doy = (153 * (if 2 < m then m - 3 else m + 9) + 2) div 5 + d - 1;
          doe = yoe * 365 + yoe div 4 - yoe div 100 + doy
      in era * 146097 + doe - 719468)"

definition getFullYear :: "date \<Rightarrow> int" where
  "getFullYear t = fst (civil_from_days (day_number t))"

text \<open>\<^verbatim>\<open>getMonth()\<close> counts the months from 0.\<close>

definition getMonth :: "date \<Rightarrow> int" where
  "getMonth t = fst (snd (civil_from_days (day_number t))) - 1"

definition getDate :: "date \<Rightarrow> int" where
  "getDate t = snd (snd (civil_from_days (day_number t)))"

text \<open>
  \<^verbatim>\<open>d.setDate(n)\<close> moves the date to day \<open>n\<close> of its month, where \<open>n\<close> may lie outside
  the month, and keeps the time of day.
\<close>

definition setDate :: "date \<Rightarrow> int \<Rightarrow> date" where
  "setDate t n = t + (n - getDate t) * ms_per_day"

text \<open>
  \<^verbatim>\<open>toISOString().split('T')[0]\<close>: the date as \<^verbatim>\<open>YYYY-MM-DD\<close>. Years outside 0 to 9999,
  which \<^verbatim>\<open>toISOString\<close> prints with a sign and six digits, are printed here with a sign
  and at least four digits.
\<close>

definition iso_date :: "date \<Rightarrow> string" where
  "iso_date t =
     (case civil_from_days (day_number t) of (y, m, d) \<Rightarrow>
        (if y < 0 then CHR ''-'' # pad_digits 4 (nat (- y)) else pad_digits 4 (nat y))
        @ ''-'' @ pad_digits 2 (nat m) @ ''-'' @ pad_digits 2 (nat d))"

text \<open>\<^verbatim>\<open>new Date('YYYY-MM-DD')\<close>: midnight UTC of that day, for the strings \<open>iso_date\<close> yields
  in the years 0 to 9999.\<close>

definition digit_val :: "char \<Rightarrow> int" where
  "digit_val c = int (of_char c) - 48"

definition number_of_digits :: "string \<Rightarrow> int" where
  "number_of_digits s = foldl (\<lambda>acc c. 10 * acc + digit_val c) 0 s"

definition parse_iso_date :: "string \<Rightarrow> date" where
  "parse_iso_date s =
     days_from_civil (number_of_digits (take 4 s))
       (number_of_digits (take 2 (drop 5 s)))
       (number_of_digits (take 2 (drop 8 s))) * ms_per_day"

text \<open>
  \<^verbatim>\<open>toDateString()\<close> prints the local day, as in \<^verbatim>\<open>Mon Sep 02 2024\<close>, and \<^verbatim>\<open>new Date\<close> of
  that text is the local midnight of the day. The text is represented by the number of
  the day it names.
\<close>

datatype date_string = DateString int

definition toDateString :: "date \<Rightarrow> date_string" where
  "toDateString t = DateString (day_number t)"

fun Date_of_date_string :: "date_string \<Rightarrow> date" where
  "Date_of_date_string (DateString d) = d * ms_per_day"

section \<open>The records of the data model\<close>

text \<open>
  A session of the \<^verbatim>\<open>app_usage_sessions\<close> table, with the three fields the analytics
  read. \<open>None\<close> is JavaScript's \<^verbatim>\<open>null\<close>. A duration is a finite number, as JSON
  carries it.
\<close>

record session =
  participant_number :: "string option"
  duration_minutes :: "real option"
  created_at :: "date option"

text \<open>The values of a flat record that comes from the backend as JSON.\<close>

datatype jsval = JNull | JBool bool | JNum real | JStr string

text \<open>
  A demographic record is the list of its entries, in the order of \<^verbatim>\<open>Object.entries\<close>.
  A pretest response is the same, except that its \<^verbatim>\<open>created_at\<close> entry, a timestamp or
  \<^verbatim>\<open>null\<close> and so neither a boolean nor a number, is kept apart in parsed form.
\<close>

type_synonym demographic = "(string \<times> jsval) list"

record response =
  response_created_at :: "date option"
  response_entries :: "(string \<times> jsval) list"

datatype date_range = Range_today | Range_7d | Range_30d | Range_90d | Range_all

text \<open>
  Every \<^verbatim>\<open>new Date()\<close> reads the clock of the machine. A clock gives the reading of the
  first, the second, ... evaluation of \<^verbatim>\<open>new Date()\<close> during one run of the hook.
\<close>

type_synonym clock = "nat \<Rightarrow> date"

text \<open>Truthiness of a string or \<^verbatim>\<open>null\<close>, and of a number or \<^verbatim>\<open>null\<close>.\<close>

definition truthy_string :: "string option \<Rightarrow> bool" where
  "truthy_string s = (case s of None \<Rightarrow> False | Some t \<Rightarrow> t \<noteq> [])"

definition truthy_number :: "real option \<Rightarrow> bool" where
  "truthy_number d = (case d of None \<Rightarrow> False | Some v \<Rightarrow> v \<noteq> 0)"

text \<open>A number or \<^verbatim>\<open>null\<close> in arithmetic: \<^verbatim>\<open>null\<close> counts as 0.\<close>

definition num_of :: "real option \<Rightarrow> jsnum" where
  "num_of d = (case d of None \<Rightarrow> Fin 0 | Some v \<Rightarrow> Fin v)"

text \<open>A length, a count or a set size as a number.\<close>

definition num :: "nat \<Rightarrow> jsnum" where
  "num n = Fin (real n)"

text \<open>
  Objects used as dictionaries are lists of entries in the order of insertion.
  \<open>assign k f acc\<close> is \<^verbatim>\<open>acc[k] = f(acc[k])\<close>, where a missing entry reads as \<open>None\<close>.
  JavaScript enumerates keys that look like array indices first and in numeric order; this
  reordering is not modelled.
\<close>

fun assign :: "'k \<Rightarrow> ('v option \<Rightarrow> 'v) \<Rightarrow> ('k \<times> 'v) list \<Rightarrow> ('k \<times> 'v) list" where
  "assign k f [] = [(k, f None)]"
| "assign k f ((k', v) # rest) =
     (if k = k' then (k', f (Some v)) # rest else (k', v) # assign k f rest)"

text \<open>\<^verbatim>\<open>acc[key] = (acc[key] || 0) + 1\<close>\<close>

definition increment :: "'k \<Rightarrow> ('k \<times> nat) list \<Rightarrow> ('k \<times> nat) list" where
  "increment k acc = assign k (\<lambda>v. (case v of None \<Rightarrow> 0 | Some c \<Rightarrow> c) + 1) acc"

text \<open>\<^verbatim>\<open>new Set(sessions.map(s => s.participant_number).filter(Boolean)).size\<close>\<close>

definition participant_set_size :: "session list \<Rightarrow> nat" where
  "participant_set_size sessions =
     length (remdups (filter truthy_string (map participant_number sessions)))"

section \<open>The hook \<^verbatim>\<open>useAdvancedAnalytics\<close>\<close>

subsection \<open>Period windows and session durations\<close>

definition periodDays :: "date_range \<Rightarrow> int option" where
  "periodDays dateRange =
     (case dateRange of Range_today \<Rightarrow> Some 1 | Range_7d \<Rightarrow> Some 7 | Range_30d \<Rightarrow> Some 30
      | Range_90d \<Rightarrow> Some 90 | Range_all \<Rightarrow> None)"

text \<open>
  \<^verbatim>\<open>getPreviousPeriodData(data, days)\<close>, with the reading \<open>now\<close> of its \<^verbatim>\<open>new Date()\<close>
  and the field access \<^verbatim>\<open>item.created_at\<close> as arguments. \<open>None\<close> for \<open>days\<close> is
  \<^verbatim>\<open>'all'\<close>.
\<close>

definition getPreviousPeriodData ::
  "date \<Rightarrow> ('a \<Rightarrow> date option) \<Rightarrow> 'a list \<Rightarrow> int option \<Rightarrow> 'a list" where
  "getPreviousPeriodData now item_created_at data days =
     (case days of
        None \<Rightarrow> []
      | Some d \<Rightarrow>
          let periodStart = now - d * 24 * 60 * 60 * 1000;
              previousStart = now - (d * 2) * 24 * 60 * 60 * 1000
          in filter (\<lambda>item.
                case item_created_at item of
                  None \<Rightarrow> False
                | Some itemDate \<Rightarrow> previousStart \<le> itemDate \<and> itemDate < periodStart) data)"

text \<open>\<^verbatim>\<open>.map(session => session.duration_minutes).filter(duration => duration != null && duration > 0)\<close>\<close>

definition usable_duration :: "real option \<Rightarrow> bool" where
  "usable_duration duration = (case duration of None \<Rightarrow> False | Some d \<Rightarrow> 0 < d)"

definition durations :: "session list \<Rightarrow> jsnum list" where
  "durations sessions = map num_of (filter usable_duration (map duration_minutes sessions))"

record percentiles =
  p25 :: jsnum
  p75 :: jsnum
  p90 :: jsnum
  p95 :: jsnum

record period_change =
  change_count :: jsnum
  change_mean :: jsnum

record previous_period =
  prev_count :: nat
  prev_mean :: jsnum
  prev_median :: jsnum
  prev_change :: period_change

record session_analytics =
  sa_count :: nat
  sa_mean :: jsnum
  sa_median :: jsnum
  sa_standardDeviation :: jsnum
  sa_min :: jsnum
  sa_max :: jsnum
  sa_percentiles :: percentiles
  sa_previousPeriod :: previous_period

text \<open>The object \<^verbatim>\<open>sessionAnalytics\<close>, from \<^verbatim>\<open>sessionDurations\<close> and
  \<^verbatim>\<open>previousSessionDurations\<close>.\<close>

definition sessionAnalytics :: "jsnum list \<Rightarrow> jsnum list \<Rightarrow> session_analytics" where
  "sessionAnalytics sessionDurations previousSessionDurations =
     \<lparr> sa_count = length sessionDurations,
       sa_mean = mean sessionDurations,
       sa_median = median sessionDurations,
       sa_standardDeviation = standardDeviation sessionDurations,
       sa_min = (if length sessionDurations \<noteq> 0 then Math_min sessionDurations else Fin 0),
       sa_max = (if length sessionDurations \<noteq> 0 then Math_max sessionDurations else Fin 0),
       sa_percentiles =
         \<lparr> p25 = percentile sessionDurations 25,
           p75 = percentile sessionDurations 75,
           p90 = percentile sessionDurations 90,
           p95 = percentile sessionDurations 95 \<rparr>,
       sa_previousPeriod =
         \<lparr> prev_count = length previousSessionDurations,
           prev_mean = mean previousSessionDurations,
           prev_median = median previousSessionDurations,
           prev_change =
             \<lparr> change_count =
                 (if length previousSessionDurations \<noteq> 0
                  then jmul (jdiv (jsub (num (length sessionDurations))
                                        (num (length previousSessionDurations)))
                                  (num (length previousSessionDurations))) (Fin 100)
                  else Fin 0),
               change_mean =
                 (if length previousSessionDurations \<noteq> 0
                  then jmul (jdiv (jsub (mean sessionDurations) (mean previousSessionDurations))
                                  (mean previousSessionDurations)) (Fin 100)
                  else Fin 0) \<rparr> \<rparr> \<rparr>"

subsection \<open>Time series and trend\<close>

datatype grouping = Daily | Weekly | Monthly

definition getTimeSeriesGrouping :: "int \<Rightarrow> grouping" where
  "getTimeSeriesGrouping days =
     (if days \<le> 7 then Daily else if days \<le> 30 then Daily
      else if days \<le> 90 then Weekly else Monthly)"

text \<open>
  The keys of \<^verbatim>\<open>sessionsByPeriod\<close>: the text of \<^verbatim>\<open>toDateString()\<close> under daily and
  weekly grouping, the template string \<^verbatim>\<open>`${year}-${month + 1}`\<close> under monthly grouping.
\<close>

datatype period_key = DateKey date_string | MonthKey string

definition period_key_of :: "grouping \<Rightarrow> date \<Rightarrow> period_key" where
  "period_key_of grouping date =
     (if grouping = Daily then DateKey (toDateString date)
      else if grouping = Weekly then
        (let weekStart = setDate date (getDate date - getDay date)
         in DateKey (toDateString weekStart))
      else MonthKey (int_string (getFullYear date) @ ''-'' @ int_string (getMonth date + 1)))"

definition sessionsByPeriod :: "grouping \<Rightarrow> session list \<Rightarrow> (period_key \<times> nat) list" where
  "sessionsByPeriod grouping sessions =
     foldl (\<lambda>acc session.
              case created_at session of
                None \<Rightarrow> acc
              | Some date \<Rightarrow> increment (period_key_of grouping date) acc) [] sessions"

text \<open>
  The \<^verbatim>\<open>period\<close> of an entry of the series is the key itself under monthly grouping
  and \<^verbatim>\<open>new Date(key)\<close> otherwise. Under monthly grouping every key is a month key and
  under the other two every key is the text of a date, so the test on the grouping is
  the case distinction on the key.
\<close>

datatype period_value = PeriodDate date | PeriodString string

fun period_of_key :: "period_key \<Rightarrow> period_value" where
  "period_of_key (DateKey s) = PeriodDate (Date_of_date_string s)"
| "period_of_key (MonthKey s) = PeriodString s"

record time_point =
  period :: period_value
  count :: nat
  point_grouping :: grouping

text \<open>The comparator of the sort: \<^verbatim>\<open>localeCompare\<close> under monthly grouping, the
  difference of the two dates otherwise (\<^verbatim>\<open>NaN\<close> when an operand is not a date).\<close>

definition period_compare :: "grouping \<Rightarrow> time_point \<Rightarrow> time_point \<Rightarrow> jsnum" where
  "period_compare grouping a b =
     (if grouping = Monthly then
        (case (period a, period b) of
           (PeriodString s, PeriodString t) \<Rightarrow> localeCompare s t
         | _ \<Rightarrow> NaN)
      else
        (case (period a, period b) of
           (PeriodDate s, PeriodDate t) \<Rightarrow> Fin (real_of_int (s - t))
         | _ \<Rightarrow> NaN))"

definition timeSeriesData :: "grouping \<Rightarrow> session list \<Rightarrow> time_point list" where
  "timeSeriesData grouping sessions =
     js_sort (period_compare grouping)
       (map (\<lambda>(key, n). \<lparr> period = period_of_key key, count = n,
                           point_grouping = grouping \<rparr>)
            (sessionsByPeriod grouping sessions))"

datatype direction = Increasing | Decreasing | Stable

record trend =
  slope :: jsnum
  direction :: direction

definition calculateTrend :: "time_point list \<Rightarrow> trend" where
  "calculateTrend data =
     (if length data < 2 then \<lparr> slope = Fin 0, direction = Stable \<rparr>
      else
        let n = num (length data);
            sumX = foldl (\<lambda>sum (item, i). jadd sum (Fin (real_of_int i))) (Fin 0) (indexed data);
            sumY = foldl (\<lambda>sum item. jadd sum (num (count item))) (Fin 0) data;
            sumXY = foldl (\<lambda>sum (item, i). jadd sum (jmul (Fin (real_of_int i)) (num (count item))))
                      (Fin 0) (indexed data);
            sumXX = foldl (\<lambda>sum (item, i). jadd sum (jmul (Fin (real_of_int i)) (Fin (real_of_int i))))
                      (Fin 0) (indexed data);
            slope = jdiv (jsub (jmul n sumXY) (jmul sumX sumY))
                         (jsub (jmul n sumXX) (jmul sumX sumX));
            direction = (if jgt slope (Fin (1 / 10)) then Increasing
                         else if jlt slope (Fin (- (1 / 10))) then Decreasing else Stable)
        in \<lparr> slope = slope, direction = direction \<rparr>)"

subsection \<open>Comparison with the previous period\<close>

record count_comparison =
  cc_current :: nat
  cc_previous :: nat
  cc_change :: jsnum
  cc_trend :: direction

record value_comparison =
  vc_current :: jsnum
  vc_previous :: jsnum
  vc_change :: jsnum
  vc_trend :: direction

record participants_comparison =
  pc_current :: nat
  pc_previous :: nat
  pc_change :: jsnum

record period_comparison =
  cmp_sessions :: count_comparison
  cmp_duration :: value_comparison
  cmp_participants :: participants_comparison

definition change_trend :: "jsnum \<Rightarrow> direction" where
  "change_trend change =
     (if jgt change (Fin 5) then Increasing
      else if jlt change (Fin (- 5)) then Decreasing else Stable)"

definition periodComparison ::
  "session_analytics \<Rightarrow> session list \<Rightarrow> session list \<Rightarrow> period_comparison" where
  "periodComparison sa currentAppUsage previousAppUsage =
     (let current = participant_set_size currentAppUsage;
          previous = participant_set_size previousAppUsage
      in \<lparr> cmp_sessions =
             \<lparr> cc_current = sa_count sa,
               cc_previous = prev_count (sa_previousPeriod sa),
               cc_change = change_count (prev_change (sa_previousPeriod sa)),
               cc_trend = change_trend (change_count (prev_change (sa_previousPeriod sa))) \<rparr>,
           cmp_duration =
             \<lparr> vc_current = sa_mean sa,
               vc_previous = prev_mean (sa_previousPeriod sa),
               vc_change = change_mean (prev_change (sa_previousPeriod sa)),
               vc_trend = change_trend (change_mean (prev_change (sa_previousPeriod sa))) \<rparr>,
           cmp_participants =
             \<lparr> pc_current = current,
               pc_previous = previous,
               pc_change =
                 (if previous \<noteq> 0
                  then jmul (jdiv (jsub (num current) (num previous)) (num previous)) (Fin 100)
                  else Fin 0) \<rparr> \<rparr>)"

subsection \<open>Demographic distribution\<close>

text \<open>
  \<^verbatim>\<open>String(value)\<close>. How JavaScript prints a number is the parameter \<open>number_text\<close>.
\<close>

fun String :: "(real \<Rightarrow> string) \<Rightarrow> jsval \<Rightarrow> string" where
  "String number_text JNull = ''null''"
| "String number_text (JBool b) = (if b then ''true'' else ''false'')"
| "String number_text (JNum r) = number_text r"
| "String number_text (JStr s) = s"

type_synonym distribution = "(string \<times> (string \<times> nat) list) list"

definition count_entry :: "(real \<Rightarrow> string) \<Rightarrow> distribution \<Rightarrow> string \<times> jsval \<Rightarrow> distribution" where
  "count_entry number_text acc entry =
     (case entry of (key, val) \<Rightarrow>
        if val \<noteq> JNull \<and> key \<noteq> ''id'' \<and> key \<noteq> ''created_at''
        then assign key
               (\<lambda>field. increment (String number_text val)
                           (case field of None \<Rightarrow> [] | Some counts \<Rightarrow> counts)) acc
        else acc)"

definition demographicDistribution :: "(real \<Rightarrow> string) \<Rightarrow> demographic list \<Rightarrow> distribution" where
  "demographicDistribution number_text demographics =
     foldl (\<lambda>acc person. foldl (count_entry number_text) acc person) [] demographics"

subsection \<open>Pretest responses\<close>

record boolean_tally =
  true_count :: nat
  false_count :: nat

record pretest_fields =
  booleanFields :: "(string \<times> boolean_tally) list option"
  numericValues :: "(string \<times> jsnum list) list option"

definition tally_entry :: "pretest_fields \<Rightarrow> string \<times> jsval \<Rightarrow> pretest_fields" where
  "tally_entry acc entry =
     (case entry of
        (key, JBool b) \<Rightarrow>
          acc \<lparr> booleanFields :=
            Some (assign key
                    (\<lambda>t. let t0 = (case t of None \<Rightarrow> \<lparr> true_count = 0, false_count = 0 \<rparr>
                                     | Some t1 \<Rightarrow> t1)
                          in if b then t0 \<lparr> true_count := true_count t0 + 1 \<rparr>
                             else t0 \<lparr> false_count := false_count t0 + 1 \<rparr>)
                    (case booleanFields acc of None \<Rightarrow> [] | Some known \<Rightarrow> known)) \<rparr>
      | (key, JNum r) \<Rightarrow>
          if \<not> str_includes key ''id''
          then acc \<lparr> numericValues :=
                 Some (assign key (\<lambda>vs. (case vs of None \<Rightarrow> [] | Some values \<Rightarrow> values) @ [Fin r])
                         (case numericValues acc of None \<Rightarrow> [] | Some known \<Rightarrow> known)) \<rparr>
          else acc
      | _ \<Rightarrow> acc)"

record numeric_stats =
  ns_values :: "jsnum list"
  ns_mean :: jsnum
  ns_median :: jsnum
  ns_standardDeviation :: jsnum
  ns_min :: jsnum
  ns_max :: jsnum

definition field_stats :: "jsnum list \<Rightarrow> numeric_stats" where
  "field_stats values =
     \<lparr> ns_values = values,
       ns_mean = mean values,
       ns_median = median values,
       ns_standardDeviation = standardDeviation values,
       ns_min = Math_min values,
       ns_max = Math_max values \<rparr>"

record pretest_analysis =
  pa_booleanFields :: "(string \<times> boolean_tally) list option"
  pa_numericFields :: "(string \<times> numeric_stats) list option"

definition pretestAnalysis :: "response list \<Rightarrow> pretest_analysis" where
  "pretestAnalysis pretest =
     (let acc = foldl (\<lambda>acc response. foldl tally_entry acc (response_entries response))
                  \<lparr> booleanFields = None, numericValues = None \<rparr> pretest
      in \<lparr> pa_booleanFields = booleanFields acc,
           pa_numericFields =
             (case numericValues acc of
                None \<Rightarrow> None
              | Some known \<Rightarrow> Some (map (\<lambda>(field, values). (field, field_stats values)) known)) \<rparr>)"

subsection \<open>Correlation of session count and average duration\<close>

record participant_stats =
  ps_sessions :: nat
  ps_totalDuration :: jsnum
  ps_avgDuration :: jsnum

definition add_session :: "real option \<Rightarrow> participant_stats option \<Rightarrow> participant_stats" where
  "add_session minutes entry =
     (let e = (case entry of
                 None \<Rightarrow> \<lparr> ps_sessions = 0, ps_totalDuration = Fin 0, ps_avgDuration = Fin 0 \<rparr>
               | Some e0 \<Rightarrow> e0);
          sessions1 = ps_sessions e + 1;
          totalDuration1 = jadd (ps_totalDuration e) (num_of minutes)
      in \<lparr> ps_sessions = sessions1, ps_totalDuration = totalDuration1,
           ps_avgDuration = jdiv totalDuration1 (num sessions1) \<rparr>)"

definition participantData :: "session list \<Rightarrow> (string \<times> participant_stats) list" where
  "participantData sessions =
     foldl (\<lambda>acc session.
              if truthy_string (participant_number session)
                 \<and> truthy_number (duration_minutes session)
              then assign (the (participant_number session))
                     (add_session (duration_minutes session)) acc
              else acc) [] sessions"

datatype strength = Strong | Moderate | Weak

record correlation_result =
  coefficient :: jsnum
  strength :: strength

definition correlations :: "session list \<Rightarrow> correlation_result option" where
  "correlations currentAppUsage =
     (if length currentAppUsage > 5 then
        let pd = participantData currentAppUsage;
            sessionCounts = map (\<lambda>p. num (ps_sessions (snd p))) pd;
            avgDurations = map (\<lambda>p. ps_avgDuration (snd p)) pd
        in Some \<lparr> coefficient = correlation sessionCounts avgDurations,
                  strength =
                    (if jgt (jabs (correlation sessionCounts avgDurations)) (Fin (7 / 10)) then Strong
                     else if jgt (jabs (correlation sessionCounts avgDurations)) (Fin (3 / 10))
                     then Moderate else Weak) \<rparr>
      else None)"

subsection \<open>Usage patterns\<close>

record engagement =
  en_sessions :: nat
  en_totalDuration :: jsnum
  en_lastActivity :: "date option"

record usage_patterns =
  hourlyDistribution :: "(int \<times> nat) list"
  dailyDistribution :: "(int \<times> nat) list"
  participantEngagement :: "(string \<times> engagement) list"

definition engage :: "session \<Rightarrow> engagement option \<Rightarrow> engagement" where
  "engage session entry =
     (let e = (case entry of
                 None \<Rightarrow> \<lparr> en_sessions = 0, en_totalDuration = Fin 0, en_lastActivity = None \<rparr>
               | Some e0 \<Rightarrow> e0);
          e1 = e \<lparr> en_sessions := en_sessions e + 1,
                   en_totalDuration :=
                     jadd (en_totalDuration e)
                       (if truthy_number (duration_minutes session)
                        then num_of (duration_minutes session) else Fin 0) \<rparr>
      in case created_at session of
           None \<Rightarrow> e1
         | Some activityDate \<Rightarrow>
             (case en_lastActivity e1 of
                None \<Rightarrow> e1 \<lparr> en_lastActivity := Some activityDate \<rparr>
              | Some lastActivity \<Rightarrow>
                  if lastActivity < activityDate then e1 \<lparr> en_lastActivity := Some activityDate \<rparr>
                  else e1))"

definition usage_step :: "usage_patterns \<Rightarrow> session \<Rightarrow> usage_patterns" where
  "usage_step up session =
     (let up1 = (case created_at session of
                   None \<Rightarrow> up
                 | Some date \<Rightarrow>
                     up \<lparr> hourlyDistribution := increment (getHours date) (hourlyDistribution up),
                          dailyDistribution := increment (getDay date) (dailyDistribution up) \<rparr>)
      in if truthy_string (participant_number session)
         then up1 \<lparr> participantEngagement :=
                assign (the (participant_number session)) (engage session)
                  (participantEngagement up1) \<rparr>
         else up1)"

definition usagePatterns :: "session list \<Rightarrow> usage_patterns" where
  "usagePatterns currentAppUsage =
     foldl usage_step
       \<lparr> hourlyDistribution = [], dailyDistribution = [], participantEngagement = [] \<rparr>
       currentAppUsage"

subsection \<open>Insights\<close>

datatype insight_type = Positive | Warning | Info

datatype impact = High | Medium | Low

text \<open>
  The texts of an insight are template strings. A text is the list of its pieces: literal
  text, and numbers printed by \<^verbatim>\<open>toFixed(1)\<close>.
\<close>

datatype fragment = Lit string | Fixed1 jsnum

record insight =
  insight_type :: insight_type
  category :: string
  title :: "fragment list"
  description :: "fragment list"
  metric :: jsnum
  impact :: impact

definition periodLabel :: "date_range \<Rightarrow> string" where
  "periodLabel dateRange =
     (if dateRange = Range_7d then ''week'' else if dateRange = Range_30d then ''month''
      else if dateRange = Range_90d then ''quarter'' else ''period'')"

definition duration_insights :: "session_analytics \<Rightarrow> insight list" where
  "duration_insights sa =
     (if jgt (sa_mean sa) (Fin 0) then
        (if jgt (sa_mean sa) (Fin 30) then
           [\<lparr> insight_type = Positive, category = ''engagement'',
              title = [Lit ''High Engagement Sessions''],
              description = [Lit ''Average session duration of '', Fixed1 (sa_mean sa),
                             Lit '' minutes indicates strong user engagement.''],
              metric = sa_mean sa, impact = High \<rparr>]
         else if jlt (sa_mean sa) (Fin 10) then
           [\<lparr> insight_type = Warning, category = ''engagement'',
              title = [Lit ''Short Session Duration''],
              description = [Lit ''Average session duration of '', Fixed1 (sa_mean sa),
                             Lit '' minutes may indicate user experience issues.''],
              metric = sa_mean sa, impact = Medium \<rparr>]
         else [])
      else [])"

definition trend_insights :: "trend \<Rightarrow> insight list" where
  "trend_insights sessionTrend =
     (if direction sessionTrend = Increasing then
        [\<lparr> insight_type = Positive, category = ''growth'',
           title = [Lit ''Growing User Activity''],
           description = [Lit ''Session activity is trending upward, indicating growing user adoption.''],
           metric = slope sessionTrend, impact = High \<rparr>]
      else if direction sessionTrend = Decreasing then
        [\<lparr> insight_type = Warning, category = ''retention'',
           title = [Lit ''Declining Activity''],
           description = [Lit ''Session activity is trending downward. Consider user retention strategies.''],
           metric = slope sessionTrend, impact = High \<rparr>]
      else [])"

definition variability_insights :: "session_analytics \<Rightarrow> insight list" where
  "variability_insights sa =
     (if jgt (sa_standardDeviation sa) (jmul (sa_mean sa) (Fin (8 / 10))) then
        [\<lparr> insight_type = Info, category = ''behavior'',
           title = [Lit ''High Usage Variability''],
           description = [Lit ''Large variation in session durations suggests diverse user behaviors.''],
           metric = sa_standardDeviation sa, impact = Medium \<rparr>]
      else [])"

definition participation_insights :: "session list \<Rightarrow> insight list" where
  "participation_insights currentAppUsage =
     (let uniqueParticipants = participant_set_size currentAppUsage;
          totalSessions = length currentAppUsage;
          sessionsPerParticipant = jdiv (num totalSessions) (num (max uniqueParticipants 1))
      in if jgt sessionsPerParticipant (Fin 5) then
           [\<lparr> insight_type = Positive, category = ''retention'',
              title = [Lit ''Strong User Retention''],
              description = [Lit ''Average of '', Fixed1 sessionsPerParticipant,
                             Lit '' sessions per participant shows good retention.''],
              metric = sessionsPerParticipant, impact = High \<rparr>]
         else [])"

definition period_insights :: "date_range \<Rightarrow> period_comparison \<Rightarrow> insight list" where
  "period_insights dateRange pc =
     (if dateRange \<noteq> Range_all \<and> cc_previous (cmp_sessions pc) > 0 then
        (let changePercent = jabs (cc_change (cmp_sessions pc));
             changeDirection =
               (if jgt (cc_change (cmp_sessions pc)) (Fin 0) then ''increased'' else ''decreased'')
         in (if jgt changePercent (Fin 20) then
               [\<lparr> insight_type =
                    (if jgt (cc_change (cmp_sessions pc)) (Fin 0) then Positive else Warning),
                  category = ''growth'',
                  title = [Lit ''Sessions '', Lit changeDirection, Lit '' by '',
                           Fixed1 changePercent, Lit ''%''],
                  description = [Lit ''Compared to previous '', Lit (periodLabel dateRange),
                                 Lit '', session activity has '', Lit changeDirection,
                                 Lit '' significantly.''],
                  metric = cc_change (cmp_sessions pc), impact = High \<rparr>]
             else [])
            @
            (if jgt (jabs (vc_change (cmp_duration pc))) (Fin 15) then
               (let durationDirection =
                      (if jgt (vc_change (cmp_duration pc)) (Fin 0) then ''increased''
                       else ''decreased'')
                in [\<lparr> insight_type =
                        (if jgt (vc_change (cmp_duration pc)) (Fin 0) then Positive else Warning),
                      category = ''engagement'',
                      title = [Lit ''Session Duration '', Lit durationDirection],
                      description = [Lit ''Average session duration has '', Lit durationDirection,
                                     Lit '' by '', Fixed1 (jabs (vc_change (cmp_duration pc))),
                                     Lit ''% compared to the previous period.''],
                      metric = vc_change (cmp_duration pc), impact = Medium \<rparr>])
             else []))
      else [])"

definition monthly_insights :: "date_range \<Rightarrow> session list \<Rightarrow> insight list" where
  "monthly_insights dateRange currentAppUsage =
     (if dateRange = Range_30d then
        (let weeklyAverage = jdiv (num (length currentAppUsage)) (Fin (43 / 10))
         in if jgt weeklyAverage (Fin 10) then
              [\<lparr> insight_type = Positive, category = ''activity'',
                 title = [Lit ''High Monthly Activity''],
                 description = [Lit ''Averaging '', Fixed1 weeklyAverage,
                                Lit '' sessions per week this month shows strong engagement.''],
                 metric = weeklyAverage, impact = High \<rparr>]
            else [])
      else [])"

definition quarterly_insights ::
  "date_range \<Rightarrow> session list \<Rightarrow> period_comparison \<Rightarrow> insight list" where
  "quarterly_insights dateRange currentAppUsage pc =
     (if dateRange = Range_90d then
        (let monthlyAverage = jdiv (num (length currentAppUsage)) (Fin 3);
             participantGrowth = pc_change (cmp_participants pc)
         in (if jgt participantGrowth (Fin 10) then
               [\<lparr> insight_type = Positive, category = ''growth'',
                  title = [Lit ''Participant Base Growing''],
                  description = [Fixed1 participantGrowth,
                                 Lit ''% increase in active participants over the quarter.''],
                  metric = participantGrowth, impact = High \<rparr>]
             else [])
            @
            (if jgt monthlyAverage (Fin 30) then
               [\<lparr> insight_type = Positive, category = ''volume'',
                  title = [Lit ''High Quarterly Volume''],
                  description = [Lit ''Averaging '', Fixed1 monthlyAverage,
                                 Lit '' sessions per month indicates sustained usage.''],
                  metric = monthlyAverage, impact = Medium \<rparr>]
             else []))
      else [])"

definition correlation_insights :: "correlation_result option \<Rightarrow> insight list" where
  "correlation_insights cors =
     (case cors of
        None \<Rightarrow> []
      | Some sessionsVsDuration \<Rightarrow>
          if strength sessionsVsDuration = Strong then
            (let positive = jgt (coefficient sessionsVsDuration) (Fin 0)
             in [\<lparr> insight_type = Info, category = ''correlation'',
                   title = [Lit (if positive then ''Positive'' else ''Negative''),
                            Lit '' Session-Duration Correlation''],
                   description = [Lit ''Strong '', Lit (if positive then ''positive'' else ''negative''),
                                  Lit '' correlation between number of sessions and duration.''],
                   metric = coefficient sessionsVsDuration, impact = Medium \<rparr>])
          else [])"

definition impactOrder :: "impact \<Rightarrow> int" where
  "impactOrder i = (case i of High \<Rightarrow> 3 | Medium \<Rightarrow> 2 | Low \<Rightarrow> 1)"

definition impact_compare :: "insight \<Rightarrow> insight \<Rightarrow> jsnum" where
  "impact_compare a b = Fin (real_of_int (impactOrder (impact b) - impactOrder (impact a)))"

text \<open>The insights in the order in which \<^verbatim>\<open>generateInsights\<close> pushes them.\<close>

definition pushed_insights ::
  "date_range \<Rightarrow> session list \<Rightarrow> session_analytics \<Rightarrow> trend \<Rightarrow> period_comparison
     \<Rightarrow> correlation_result option \<Rightarrow> insight list" where
  "pushed_insights dateRange currentAppUsage sa sessionTrend pc cors =
     duration_insights sa @ trend_insights sessionTrend @ variability_insights sa
     @ participation_insights currentAppUsage @ period_insights dateRange pc
     @ monthly_insights dateRange currentAppUsage
     @ quarterly_insights dateRange currentAppUsage pc
     @ correlation_insights cors"

definition generateInsights ::
  "date_range \<Rightarrow> session list \<Rightarrow> session_analytics \<Rightarrow> trend \<Rightarrow> period_comparison
     \<Rightarrow> correlation_result option \<Rightarrow> insight list" where
  "generateInsights dateRange currentAppUsage sa sessionTrend pc cors =
     js_sort impact_compare (pushed_insights dateRange currentAppUsage sa sessionTrend pc cors)"

subsection \<open>The snapshot\<close>

record data_quality =
  sessionCompleteness :: jsnum
  responseRate :: jsnum

record comparison_metrics =
  sessionChange :: jsnum
  durationChange :: jsnum
  participantChange :: jsnum
  cm_periodLabel :: string

record summary =
  totalSessions :: nat
  totalParticipants :: nat
  totalResponses :: nat
  totalDemographics :: nat
  averageSessionDuration :: jsnum
  engagementTrend :: direction
  periodRange :: date_range
  dataQuality :: data_quality
  comparisonMetrics :: comparison_metrics

record analytics =
  an_sessionAnalytics :: session_analytics
  an_timeSeriesData :: "time_point list"
  an_sessionTrend :: trend
  an_periodComparison :: period_comparison
  an_demographicDistribution :: distribution
  an_pretestAnalysis :: pretest_analysis
  an_correlations :: "correlation_result option"
  an_usagePatterns :: usage_patterns
  an_insights :: "insight list"
  an_summary :: summary

text \<open>
  The body of the hook. A missing input array is the empty one
  (\<^verbatim>\<open>appUsageData || []\<close>). The two calls of \<^verbatim>\<open>getPreviousPeriodData\<close> read the clock
  one after the other.
\<close>

definition useAdvancedAnalytics ::
  "(real \<Rightarrow> string) \<Rightarrow> clock \<Rightarrow> session list \<Rightarrow> response list \<Rightarrow> demographic list
     \<Rightarrow> date_range \<Rightarrow> analytics" where
  "useAdvancedAnalytics number_text clock appUsageData pretestData demographicsData dateRange =
     (let currentAppUsage = appUsageData;
          currentPretest = pretestData;
          currentDemographics = demographicsData;
          currentPeriodDays = periodDays dateRange;
          previousAppUsage =
            getPreviousPeriodData (clock 0) created_at currentAppUsage currentPeriodDays;
          previousPretest =
            getPreviousPeriodData (clock 1) response_created_at currentPretest currentPeriodDays;
          sessionDurations = durations currentAppUsage;
          previousSessionDurations = durations previousAppUsage;
          sa = sessionAnalytics sessionDurations previousSessionDurations;
          grouping =
            getTimeSeriesGrouping (case currentPeriodDays of None \<Rightarrow> 365 | Some d \<Rightarrow> d);
          series = timeSeriesData grouping currentAppUsage;
          sessionTrend = calculateTrend series;
          pc = periodComparison sa currentAppUsage previousAppUsage;
          cors = correlations currentAppUsage
      in \<lparr> an_sessionAnalytics = sa,
           an_timeSeriesData = series,
           an_sessionTrend = sessionTrend,
           an_periodComparison = pc,
           an_demographicDistribution = demographicDistribution number_text currentDemographics,
           an_pretestAnalysis = pretestAnalysis currentPretest,
           an_correlations = cors,
           an_usagePatterns = usagePatterns currentAppUsage,
           an_insights = generateInsights dateRange currentAppUsage sa sessionTrend pc cors,
           an_summary =
             \<lparr> totalSessions = length currentAppUsage,
               totalParticipants = participant_set_size currentAppUsage,
               totalResponses = length currentPretest,
               totalDemographics = length currentDemographics,
               averageSessionDuration = sa_mean sa,
               engagementTrend = direction sessionTrend,
               periodRange = dateRange,
               dataQuality =
                 \<lparr> sessionCompleteness =
                     jdiv (num (length sessionDurations)) (num (max (length currentAppUsage) 1)),
                   responseRate =
                     jdiv (num (length currentPretest))
                          (num (max (participant_set_size currentAppUsage) 1)) \<rparr>,
               comparisonMetrics =
                 \<lparr> sessionChange = cc_change (cmp_sessions pc),
                   durationChange = vc_change (cmp_duration pc),
                   participantChange = pc_change (cmp_participants pc),
                   cm_periodLabel = periodLabel dateRange \<rparr> \<rparr> \<rparr>)"

section \<open>Cohort retention of the statistical charts\<close>

text \<open>\<^verbatim>\<open>new Date(session.created_at)\<close> without a guard: \<^verbatim>\<open>new Date(null)\<close> is the epoch.\<close>

definition new_Date :: "date option \<Rightarrow> date" where
  "new_Date created = (case created of None \<Rightarrow> 0 | Some t \<Rightarrow> t)"

definition participantFirstSession :: "session list \<Rightarrow> (string \<times> date) list" where
  "participantFirstSession appUsageData =
     foldl (\<lambda>acc session.
              case created_at session of
                None \<Rightarrow> acc
              | Some sessionDate \<Rightarrow>
                  if truthy_string (participant_number session)
                  then assign (the (participant_number session))
                         (\<lambda>first. case first of
                                     None \<Rightarrow> sessionDate
                                   | Some firstDate \<Rightarrow>
                                       if sessionDate < firstDate then sessionDate else firstDate)
                         acc
                  else acc) [] appUsageData"

definition cohortKey_of :: "date \<Rightarrow> string" where
  "cohortKey_of firstDate =
     (let weekStart = setDate firstDate (getDate firstDate - getDay firstDate)
      in iso_date weekStart)"

definition cohorts :: "(string \<times> date) list \<Rightarrow> (string \<times> string list) list" where
  "cohorts firstSessions =
     foldl (\<lambda>acc (participant, firstDate).
              assign (cohortKey_of firstDate)
                (\<lambda>members. (case members of None \<Rightarrow> [] | Some ps \<Rightarrow> ps) @ [participant]) acc)
       [] firstSessions"

definition cohortLabels :: "(string \<times> string list) list \<Rightarrow> string list" where
  "cohortLabels cs = take 8 (js_sort default_compare (map fst cs))"

definition activeCount :: "session list \<Rightarrow> string list \<Rightarrow> date \<Rightarrow> nat" where
  "activeCount appUsageData cohortParticipants weekDate =
     length (filter (\<lambda>participant.
               list_ex (\<lambda>session.
                  participant_number session = Some participant
                  \<and> weekDate \<le> new_Date (created_at session)
                  \<and> new_Date (created_at session) < weekDate + 7 * 24 * 60 * 60 * 1000)
                 appUsageData) cohortParticipants)"

definition retention :: "session list \<Rightarrow> string list \<Rightarrow> date \<Rightarrow> jsnum list" where
  "retention appUsageData cohortParticipants cohortStartDate =
     Fin 100 #
     map (\<lambda>week.
            let weekDate = setDate cohortStartDate (getDate cohortStartDate + week * 7)
            in jmul (jdiv (num (activeCount appUsageData cohortParticipants weekDate))
                          (num (length cohortParticipants))) (Fin 100))
         [1, 2, 3, 4]"

text \<open>
  A dataset of the chart: its label, given by the cohort key whose date the label prints,
  and its curve. The colours and line styles of the chart are left out.
\<close>

record cohort_dataset =
  cohort_label :: string
  cohort_data :: "jsnum list"

record cohort_chart =
  chart_labels :: "string list"
  datasets :: "cohort_dataset list"

definition cohortData :: "session list \<Rightarrow> cohort_chart option" where
  "cohortData appUsageData =
     (if length appUsageData < 20 then None
      else
        let cs = cohorts (participantFirstSession appUsageData);
            labels = cohortLabels cs;
            retentionData =
              map (\<lambda>cohortKey.
                     retention appUsageData
                       (case map_of cs cohortKey of None \<Rightarrow> [] | Some ps \<Rightarrow> ps)
                       (parse_iso_date cohortKey)) labels
        in Some \<lparr> chart_labels = [''Week 0'', ''Week 1'', ''Week 2'', ''Week 3'', ''Week 4''],
                  datasets =
                    map (\<lambda>(cohortKey, data). \<lparr> cohort_label = cohortKey, cohort_data = data \<rparr>)
                      (zip labels retentionData) \<rparr>)"

section \<open>Reference values\<close>




text \<open>The strictly positive durations of a list of sessions, as reals.\<close>

fun positive_durations :: "session list \<Rightarrow> real list" where
  "positive_durations [] = []"
| "positive_durations (s # ss) =
     (case duration_minutes s of
        None \<Rightarrow> positive_durations ss
      | Some d \<Rightarrow> if 0 < d then d # positive_durations ss else positive_durations ss)"

text \<open>A session with its duration of exactly 0 replaced by \<^verbatim>\<open>null\<close>.\<close>

definition zero_as_null :: "session \<Rightarrow> session" where
  "zero_as_null x = (if duration_minutes x = Some 0 then x \<lparr> duration_minutes := None \<rparr> else x)"





section \<open>The numbers of a snapshot\<close>














section \<open>Example inputs\<close>

text \<open>Two sessions of one participant, on 2024-09-15 and 2024-10-15 at noon UTC.\<close>

definition september_session :: session where
  "september_session =
     \<lparr> participant_number = Some ''A'', duration_minutes = Some 10,
       created_at = Some 1726401600000 \<rparr>"

definition october_session :: session where
  "october_session =
     \<lparr> participant_number = Some ''A'', duration_minutes = Some 10,
       created_at = Some 1728993600000 \<rparr>"

text \<open>
  Twenty sessions of nine participants \<^verbatim>\<open>P0\<close> to \<^verbatim>\<open>P8\<close>. Participant \<^verbatim>\<open>Pk\<close> has its first
  session on Wednesday 2024-01-03 at 10:00 UTC plus \<open>k\<close> weeks, so each of the nine
  is the only member of the cohort of its week.
\<close>

definition week_session :: "nat \<Rightarrow> session" where
  "week_session k =
     \<lparr> participant_number = Some (''P'' @ digits_of k), duration_minutes = Some 10,
       created_at = Some (1704276000000 + int k * 604800000) \<rparr>"

definition nine_cohorts :: "session list" where
  "nine_cohorts = map week_session [0, 1, 2, 3, 4, 5, 6, 7, 8] @ replicate 11 (week_session 0)"

text \<open>A single session of 45 minutes.\<close>

definition long_session :: session where
  "long_session = \<lparr> participant_number = Some ''A'', duration_minutes = Some 45,
     created_at = None \<rparr>"

text \<open>Six sessions of 5 minutes of one participant, none with a timestamp.\<close>

definition short_session :: session where
  "short_session = \<lparr> participant_number = Some ''A'', duration_minutes = Some 5,
     created_at = None \<rparr>"

definition six_short_sessions :: "session list" where
  "six_short_sessions = replicate 6 short_session"



text \<open>A session of 0 minutes.\<close>

definition zero_session :: session where
  "zero_session = \<lparr> participant_number = Some ''A'', duration_minutes = Some 0,
     created_at = None \<rparr>"



section \<open>Properties of the statistics helpers\<close>
















section \<open>The time series and the cohorts on the example inputs\<close>

lemma civil_facts:
  "civil_from_days 19722 = (2023, 12, 31)"
  "civil_from_days 19725 = (2024, 1, 3)"
  "civil_from_days 19729 = (2024, 1, 7)"
  "civil_from_days 19732 = (2024, 1, 10)"
  "civil_from_days 19736 = (2024, 1, 14)"
  "civil_from_days 19739 = (2024, 1, 17)"
  "civil_from_days 19743 = (2024, 1, 21)"
  "civil_from_days 19746 = (2024, 1, 24)"
  "civil_from_days 19750 = (2024, 1, 28)"
  "civil_from_days 19753 = (2024, 1, 31)"
  "civil_from_days 19757 = (2024, 2, 4)"
  "civil_from_days 19760 = (2024, 2, 7)"
  "civil_from_days 19764 = (2024, 2, 11)"
  "civil_from_days 19767 = (2024, 2, 14)"
  "civil_from_days 19771 = (2024, 2, 18)"
  "civil_from_days 19774 = (2024, 2, 21)"
  "civil_from_days 19778 = (2024, 2, 25)"
  "civil_from_days 19781 = (2024, 2, 28)"
  "civil_from_days 19981 = (2024, 9, 15)"
  "civil_from_days 20011 = (2024, 10, 15)"
  unfolding civil_from_days_def Let_def by simp_all

lemma cohort_keys:
  "cohortKey_of 1704276000000 = ''2023-12-31''"
  "cohortKey_of 1704880800000 = ''2024-01-07''"
  "cohortKey_of 1705485600000 = ''2024-01-14''"
  "cohortKey_of 1706090400000 = ''2024-01-21''"
  "cohortKey_of 1706695200000 = ''2024-01-28''"
  "cohortKey_of 1707300000000 = ''2024-02-04''"
  "cohortKey_of 1707904800000 = ''2024-02-11''"
  "cohortKey_of 1708509600000 = ''2024-02-18''"
  "cohortKey_of 1709114400000 = ''2024-02-25''"
  by (simp_all add: cohortKey_of_def setDate_def getDate_def getDay_def iso_date_def day_number_def
    ms_per_day_def civil_facts pad_digits_def digits_of.simps digit_char_def)

lemma month_keys: "period_key_of Monthly 1726401600000 = MonthKey ''2024-9''"
  "period_key_of Monthly 1728993600000 = MonthKey ''2024-10''"
  by (simp_all add: period_key_of_def getFullYear_def getMonth_def day_number_def ms_per_day_def civil_facts int_string_def digits_of.simps digit_char_def)


lemma first_sessions:
  "participantFirstSession nine_cohorts =
     [(''P0'', 1704276000000), (''P1'', 1704880800000), (''P2'', 1705485600000),
      (''P3'', 1706090400000), (''P4'', 1706695200000), (''P5'', 1707300000000),
      (''P6'', 1707904800000), (''P7'', 1708509600000), (''P8'', 1709114400000)]"
  by (simp add: participantFirstSession_def nine_cohorts_def week_session_def truthy_string_def
      digits_of.simps digit_char_def eval_nat_numeral)

lemma nine_cohorts_cohorts:
  "cohorts (participantFirstSession nine_cohorts) =
     [(''2023-12-31'', [''P0'']), (''2024-01-07'', [''P1'']), (''2024-01-14'', [''P2'']),
      (''2024-01-21'', [''P3'']), (''2024-01-28'', [''P4'']), (''2024-02-04'', [''P5'']),
      (''2024-02-11'', [''P6'']), (''2024-02-18'', [''P7'']), (''2024-02-25'', [''P8''])]"
  by (simp add: first_sessions cohorts_def cohort_keys)

lemma nine_cohorts_labels:
  "cohortLabels (cohorts (participantFirstSession nine_cohorts)) =
     [''2023-12-31'', ''2024-01-07'', ''2024-01-14'', ''2024-01-21'', ''2024-01-28'',
      ''2024-02-04'', ''2024-02-11'', ''2024-02-18'']"
  by (simp add: nine_cohorts_cohorts cohortLabels_def default_compare_def)

lemma cohortData_labels:
  "cohortData appUsageData = Some chart \<Longrightarrow>
   map cohort_label (datasets chart) = cohortLabels (cohorts (participantFirstSession appUsageData))"
  by (auto simp: cohortData_def Let_def o_def split: if_splits intro!: nth_equalityI)

text \<open>
  Claim C5, at the example of nine weekly cohorts: the chart is produced, and its curves
  are those of the eight oldest cohorts; the most recent cohort, of the week of
  2024-02-25, is the one left out.
\<close>

theorem cohortData_keeps_oldest_cohorts:
  "length nine_cohorts = 20 \<and>
   map fst (cohorts (participantFirstSession nine_cohorts)) =
     [''2023-12-31'', ''2024-01-07'', ''2024-01-14'', ''2024-01-21'', ''2024-01-28'',
      ''2024-02-04'', ''2024-02-11'', ''2024-02-18'', ''2024-02-25''] \<and>
   (\<exists>chart. cohortData nine_cohorts = Some chart \<and>
      map cohort_label (datasets chart) =
        [''2023-12-31'', ''2024-01-07'', ''2024-01-14'', ''2024-01-21'', ''2024-01-28'',
         ''2024-02-04'', ''2024-02-11'', ''2024-02-18''])"
proof -
  have len: "length nine_cohorts = 20"
    by (simp add: nine_cohorts_def)
  then obtain chart where chart: "cohortData nine_cohorts = Some chart"
    by (simp add: cohortData_def Let_def)
  show ?thesis
    using len chart cohortData_labels [OF chart]
    by (simp add: nine_cohorts_cohorts nine_cohorts_labels [unfolded nine_cohorts_cohorts])
qed

lemma monthly_series:
  "map period (timeSeriesData Monthly [september_session, october_session])
     = [PeriodString ''2024-10'', PeriodString ''2024-9'']"
  by (simp add: timeSeriesData_def sessionsByPeriod_def september_session_def october_session_def
      month_keys increment_def period_compare_def localeCompare_def)

text \<open>
  Claim C3, at the example of one session in September and one in October 2024 with the
  range \<^verbatim>\<open>all\<close>, hence monthly grouping: the series lists October before September.
\<close>

theorem monthly_series_out_of_order:
  "map period (an_timeSeriesData
      (useAdvancedAnalytics number_text clock [september_session, october_session] [] [] Range_all))
     = [PeriodString ''2024-10'', PeriodString ''2024-9'']"
  by (simp add: useAdvancedAnalytics_def Let_def periodDays_def getTimeSeriesGrouping_def monthly_series)


section \<open>Dictionaries and sorting\<close>

lemma map_of_assign: "map_of (assign k f acc) = (map_of acc)(k \<mapsto> f (map_of acc k))"
  by (induction acc) (auto simp: fun_eq_iff)

lemma fst_set_assign: "fst ` set (assign k f acc) = insert k (fst ` set acc)"
  by (simp add: dom_map_of_conv_image_fst [symmetric] map_of_assign)

lemma js_sort_impact:
  "js_sort impact_compare xs = sort_key (\<lambda>i. - impactOrder (impact i)) xs"
proof (induction xs)
  case Nil
  then show ?case by simp
next
  case (Cons x xs)
  have ins: "js_insert impact_compare x ys = insort_key (\<lambda>i. - impactOrder (impact i)) x ys" for ys
    by (induction ys) (auto simp: impact_compare_def)
  show ?case by (simp add: Cons.IH ins)
qed



section \<open>The insights\<close>

lemma pushed_impacts:
  "i \<in> set (pushed_insights r s sa t pc c) \<Longrightarrow> impact i = High \<or> impact i = Medium"
  by (auto simp: pushed_insights_def duration_insights_def trend_insights_def
      variability_insights_def participation_insights_def period_insights_def
      monthly_insights_def quarterly_insights_def correlation_insights_def Let_def
      split: if_splits option.splits)

lemma an_insights_eq:
  "an_insights (useAdvancedAnalytics nt clock s p d r) =
     js_sort impact_compare
       (pushed_insights r s
          (an_sessionAnalytics (useAdvancedAnalytics nt clock s p d r))
          (an_sessionTrend (useAdvancedAnalytics nt clock s p d r))
          (an_periodComparison (useAdvancedAnalytics nt clock s p d r))
          (an_correlations (useAdvancedAnalytics nt clock s p d r)))"
  by (simp add: useAdvancedAnalytics_def Let_def generateInsights_def)

text \<open>
  Claim C10. Every insight of the snapshot has impact \<open>High\<close> or \<open>Medium\<close>: no rule
  pushes an insight of impact \<open>Low\<close>, whatever the input.
\<close>

theorem insights_never_low:
  "\<forall>i \<in> set (an_insights (useAdvancedAnalytics nt clock s p d r)).
     impact i = High \<or> impact i = Medium"
  unfolding an_insights_eq js_sort_impact by (auto dest: pushed_impacts)

lemma mean_single: "mean [Fin a] = Fin a"
  by (simp add: mean_def)


lemma long_session_insight:
  "an_insights (useAdvancedAnalytics nt clock [long_session] [] [] Range_all) \<noteq> []"
proof -
  have "duration_insights (sessionAnalytics (durations [long_session]) (durations [])) \<noteq> []"
    by (simp add: duration_insights_def sessionAnalytics_def durations_def long_session_def
        usable_duration_def num_of_def mean_single jgt_def)
  then have "pushed_insights Range_all [long_session]
       (an_sessionAnalytics (useAdvancedAnalytics nt clock [long_session] [] [] Range_all))
       (an_sessionTrend (useAdvancedAnalytics nt clock [long_session] [] [] Range_all))
       (an_periodComparison (useAdvancedAnalytics nt clock [long_session] [] [] Range_all))
       (an_correlations (useAdvancedAnalytics nt clock [long_session] [] [] Range_all)) \<noteq> []"
    by (simp add: pushed_insights_def useAdvancedAnalytics_def Let_def periodDays_def
        getPreviousPeriodData_def)
  then have "length (an_insights (useAdvancedAnalytics nt clock [long_session] [] [] Range_all)) \<noteq> 0"
    unfolding an_insights_eq js_sort_impact by simp
  then show ?thesis by simp
qed

theorem insights_never_low_witness:
  "list_all (\<lambda>i. impact i = High \<or> impact i = Medium)
     (an_insights (useAdvancedAnalytics (\<lambda>r. []) (\<lambda>n. 0) [long_session] [] [] Range_all)) \<and>
   an_insights (useAdvancedAnalytics (\<lambda>r. []) (\<lambda>n. 0) [long_session] [] [] Range_all) \<noteq> []"
  using insights_never_low [of "\<lambda>r. []" "\<lambda>n. 0" "[long_session]" "[]" "[]" Range_all]
    long_session_insight [of "\<lambda>r. []" "\<lambda>n. 0"]
  by (simp add: list_all_iff)

subsection \<open>Order of the insights\<close>

lemma empty_insights:
  "an_insights (useAdvancedAnalytics nt clock [] [] [] r) = []"
  by (cases r)
     (simp_all add: useAdvancedAnalytics_def Let_def generateInsights_def pushed_insights_def
      periodDays_def getPreviousPeriodData_def durations_def sessionAnalytics_def mean_def
      median_def standardDeviation_def percentile_def getTimeSeriesGrouping_def
      timeSeriesData_def sessionsByPeriod_def calculateTrend_def periodComparison_def
      participant_set_size_def correlations_def duration_insights_def trend_insights_def
      variability_insights_def participation_insights_def period_insights_def
      monthly_insights_def quarterly_insights_def correlation_insights_def jgt_def num_def)

text \<open>
  Claim C7. The insights of the snapshot are in descending order of impact, and the
  insights of each impact stand in the order in which they were generated, so the list is
  the stable sort of the generated one. In particular no insight of impact \<open>Medium\<close>
  stands before one of impact \<open>High\<close>. On empty inputs the list is empty.
\<close>

theorem insights_sorted_by_impact:
  fixes nt clock s p d r
  defines "a \<equiv> useAdvancedAnalytics nt clock s p d r"
  defines "generated \<equiv> pushed_insights r s (an_sessionAnalytics a) (an_sessionTrend a)
                         (an_periodComparison a) (an_correlations a)"
  shows "sorted_wrt (\<lambda>x y. impactOrder (impact y) \<le> impactOrder (impact x)) (an_insights a) \<and>
         (\<forall>k. filter (\<lambda>i. impact i = k) (an_insights a) = filter (\<lambda>i. impact i = k) generated) \<and>
         (\<forall>i j. i < j \<and> j < length (an_insights a) \<longrightarrow>
            \<not> (impact (an_insights a ! i) = Medium \<and> impact (an_insights a ! j) = High)) \<and>
         an_insights (useAdvancedAnalytics nt clock [] [] [] r) = []"
proof -
  let ?key = "\<lambda>i. - impactOrder (impact i)"
  have ins: "an_insights a = sort_key ?key generated"
    unfolding a_def generated_def by (subst an_insights_eq) (simp add: js_sort_impact)
  have "sorted (map ?key (an_insights a))"
    unfolding ins by (rule sorted_sort_key)
  then have srt: "sorted_wrt (\<lambda>x y. impactOrder (impact y) \<le> impactOrder (impact x)) (an_insights a)"
    by (simp add: sorted_map)
  have inj: "impactOrder x = impactOrder y \<longleftrightarrow> x = y" for x y
    by (cases x; cases y) (simp_all add: impactOrder_def)
  have stable: "filter (\<lambda>i. impact i = k) (an_insights a) = filter (\<lambda>i. impact i = k) generated" for k
  proof -
    have "filter (\<lambda>i. ?key i = - impactOrder k) (sort_key ?key generated)
            = filter (\<lambda>i. ?key i = - impactOrder k) generated"
      by (rule sort_key_stable)
    then show ?thesis by (simp add: ins inj)
  qed
  have order: "\<not> (impact (an_insights a ! i) = Medium \<and> impact (an_insights a ! j) = High)"
    if "i < j \<and> j < length (an_insights a)" for i j
  proof -
    have "impactOrder (impact (an_insights a ! j)) \<le> impactOrder (impact (an_insights a ! i))"
      using srt that by (simp add: sorted_wrt_iff_nth_less)
    then show ?thesis by (auto simp: impactOrder_def)
  qed
  show ?thesis
    using srt stable order empty_insights by blast
qed


lemma six_short_durations:
  "durations six_short_sessions = [Fin 5, Fin 5, Fin 5, Fin 5, Fin 5, Fin 5]"
  by (simp add: six_short_sessions_def short_session_def durations_def usable_duration_def
      num_of_def eval_nat_numeral)

lemma six_short_mean: "mean (durations six_short_sessions) = Fin 5"
  by (simp add: six_short_durations mean_def)

lemma six_short_deviation: "standardDeviation (durations six_short_sessions) = Fin 0"
  by (simp add: six_short_durations standardDeviation_def Let_def six_short_mean [unfolded six_short_durations]
      jsub_def jpow2_def mean_def)

lemma six_short_participants: "participant_set_size six_short_sessions = 1"
  by (simp add: six_short_sessions_def short_session_def participant_set_size_def
      truthy_string_def eval_nat_numeral)

lemma six_short_series: "timeSeriesData g six_short_sessions = []"
  by (simp add: six_short_sessions_def short_session_def timeSeriesData_def sessionsByPeriod_def
      eval_nat_numeral)

lemma six_short_data:
  "participantData six_short_sessions =
     [(''A'', \<lparr> ps_sessions = 6, ps_totalDuration = Fin 30, ps_avgDuration = Fin 5 \<rparr>)]"
  by (simp add: six_short_sessions_def short_session_def participantData_def truthy_string_def
      truthy_number_def add_session_def num_of_def num_def Let_def eval_nat_numeral)

lemma six_short_correlations:
  "correlations six_short_sessions = Some \<lparr> coefficient = Fin 0, strength = Weak \<rparr>"
proof -
  have c: "correlation [num 6] [Fin 5] = Fin 0"
    by (simp add: correlation_def Let_def mean_def indexed_def item_def jsub_def jpow2_def num_def)
  have len: "length six_short_sessions = 6"
    by (simp add: six_short_sessions_def)
  show ?thesis
    by (simp add: correlations_def len six_short_data Let_def c jgt_def)
qed

lemma six_short_pushed:
  "map impact (pushed_insights Range_all six_short_sessions
     (sessionAnalytics (durations six_short_sessions) (durations []))
     (calculateTrend (timeSeriesData g six_short_sessions))
     (periodComparison (sessionAnalytics (durations six_short_sessions) (durations []))
        six_short_sessions [])
     (correlations six_short_sessions)) = [Medium, High]"
proof -
  have len: "length six_short_sessions = 6"
    by (simp add: six_short_sessions_def)
  show ?thesis
    by (simp add: pushed_insights_def duration_insights_def trend_insights_def
      variability_insights_def participation_insights_def period_insights_def
      monthly_insights_def quarterly_insights_def correlation_insights_def
      sessionAnalytics_def six_short_mean six_short_deviation six_short_participants
      six_short_series six_short_correlations calculateTrend_def len jgt_def num_def Let_def)
qed

lemma sort_medium_high:
  assumes "map impact xs = [Medium, High]"
  shows "map impact (js_sort impact_compare xs) = [High, Medium]"
proof -
  obtain a b where xs: "xs = [a, b]" and a: "impact a = Medium" and b: "impact b = High"
    using assms by (cases xs; cases "tl xs") auto
  show ?thesis
    by (simp add: xs a b impact_compare_def impactOrder_def)
qed

lemma six_short_insights:
  "map impact (an_insights (useAdvancedAnalytics nt clock six_short_sessions [] [] Range_all))
     = [High, Medium]"
  unfolding an_insights_eq
  by (rule sort_medium_high)
     (simp add: useAdvancedAnalytics_def Let_def periodDays_def getPreviousPeriodData_def
        getTimeSeriesGrouping_def six_short_pushed)

theorem insights_sorted_by_impact_witness:
  "map impact (an_insights (useAdvancedAnalytics (\<lambda>r. []) (\<lambda>n. 0) six_short_sessions [] [] Range_all))
     = [High, Medium] \<and>
   \<not> (impact (an_insights (useAdvancedAnalytics (\<lambda>r. []) (\<lambda>n. 0) six_short_sessions [] [] Range_all) ! 0) = Medium \<and>
      impact (an_insights (useAdvancedAnalytics (\<lambda>r. []) (\<lambda>n. 0) six_short_sessions [] [] Range_all) ! 1) = High)"
proof -
  let ?ins = "an_insights (useAdvancedAnalytics (\<lambda>r. []) (\<lambda>n. 0) six_short_sessions [] [] Range_all)"
  have m: "map impact ?ins = [High, Medium]"
    by (rule six_short_insights)
  then have "length (map impact ?ins) = 2" by simp
  then have len: "(0::nat) < 1 \<and> 1 < length ?ins" by simp
  have "\<forall>i j. i < j \<and> j < length ?ins \<longrightarrow>
            \<not> (impact (?ins ! i) = Medium \<and> impact (?ins ! j) = High)"
    using insights_sorted_by_impact [of "\<lambda>r. []" "\<lambda>n. 0" six_short_sessions "[]" "[]" Range_all]
    by blast
  then show ?thesis using m len by blast
qed

section \<open>Comparison with the previous period\<close>

lemma durations_Fin: "durations ss = map Fin (positive_durations ss)"
  by (induction ss) (auto simp: durations_def usable_duration_def num_of_def split: option.splits)

lemma positive_durations_pos: "d \<in> set (positive_durations ss) \<Longrightarrow> 0 < d"
  by (induction ss) (auto split: option.splits if_splits)








section \<open>Sessions of duration zero\<close>

lemma positive_durations_zero_as_null:
  "positive_durations (map zero_as_null ss) = positive_durations ss"
  by (induction ss) (auto simp: zero_as_null_def split: option.splits)

lemma positive_durations_nonzero:
  "positive_durations (filter (\<lambda>x. duration_minutes x \<noteq> Some 0) ss) = positive_durations ss"
  by (induction ss) (auto split: option.splits)

lemma previous_map:
  assumes "\<And>x. created_at (f x) = created_at x"
  shows "getPreviousPeriodData now created_at (map f ss) days
           = map f (getPreviousPeriodData now created_at ss days)"
  by (cases days) (simp_all add: getPreviousPeriodData_def Let_def filter_map o_def assms)

lemma previous_filter:
  "getPreviousPeriodData now created_at (filter P ss) days
     = filter P (getPreviousPeriodData now created_at ss days)"
  by (cases days) (auto simp: getPreviousPeriodData_def Let_def intro: filter_cong)

lemma foldl_skip:
  assumes "\<And>acc x. x \<in> set xs \<Longrightarrow> \<not> P x \<Longrightarrow> g acc x = acc"
  shows "foldl g acc (filter P xs) = foldl g acc xs"
  using assms by (induction xs arbitrary: acc) simp_all

lemma participantData_step_zero:
  "(\<lambda>acc x. if truthy_string (participant_number (zero_as_null x))
                \<and> truthy_number (duration_minutes (zero_as_null x))
             then assign (the (participant_number (zero_as_null x)))
                    (add_session (duration_minutes (zero_as_null x))) acc
             else acc)
   = (\<lambda>acc x. if truthy_string (participant_number x) \<and> truthy_number (duration_minutes x)
             then assign (the (participant_number x)) (add_session (duration_minutes x)) acc
             else acc)"
  by (auto simp: fun_eq_iff zero_as_null_def truthy_number_def)

lemma participantData_zero_as_null:
  "participantData (map zero_as_null ss) = participantData ss"
  by (simp add: participantData_def foldl_map participantData_step_zero)

lemma participantData_skip:
  assumes "\<And>x. x \<in> set ss \<Longrightarrow> \<not> P x \<Longrightarrow> \<not> truthy_number (duration_minutes x)"
  shows "participantData (filter P ss) = participantData ss"
  unfolding participantData_def
  by (rule foldl_skip) (simp add: assms)

lemma sessionAnalytics_of_hook:
  "an_sessionAnalytics (useAdvancedAnalytics nt clock s p d r) =
     sessionAnalytics (map Fin (positive_durations s))
       (map Fin (positive_durations (getPreviousPeriodData (clock 0) created_at s (periodDays r))))"
  by (simp add: useAdvancedAnalytics_def Let_def durations_Fin)

lemma correlations_of_hook:
  "an_correlations (useAdvancedAnalytics nt clock s p d r) = correlations s"
  by (simp add: useAdvancedAnalytics_def Let_def)

text \<open>
  Claim C9. The session analytics are computed from the strictly positive durations only.
  Removing the sessions whose duration is exactly 0, or replacing their duration by
  \<^verbatim>\<open>null\<close>, changes neither the session analytics (count, mean, median, standard
  deviation, minimum, maximum, percentiles and the previous-period block) nor the
  per-participant data behind the correlation. With durations that are not negative, as
  the data model has them, the per-participant data are those of the sessions with a
  strictly positive duration.
\<close>

theorem zero_durations_excluded:
  fixes nt clock s p d r
  defines "nonzero \<equiv> filter (\<lambda>x. duration_minutes x \<noteq> Some 0) s"
  defines "nulled \<equiv> map zero_as_null s"
  shows
    "an_sessionAnalytics (useAdvancedAnalytics nt clock s p d r) =
       sessionAnalytics (map Fin (positive_durations s))
         (map Fin (positive_durations
            (getPreviousPeriodData (clock 0) created_at s (periodDays r)))) \<and>
     (\<forall>v \<in> set (positive_durations s). 0 < v) \<and>
     an_sessionAnalytics (useAdvancedAnalytics nt clock nonzero p d r) =
       an_sessionAnalytics (useAdvancedAnalytics nt clock s p d r) \<and>
     an_sessionAnalytics (useAdvancedAnalytics nt clock nulled p d r) =
       an_sessionAnalytics (useAdvancedAnalytics nt clock s p d r) \<and>
     participantData nonzero = participantData s \<and>
     participantData nulled = participantData s \<and>
     an_correlations (useAdvancedAnalytics nt clock nulled p d r) =
       an_correlations (useAdvancedAnalytics nt clock s p d r) \<and>
     ((\<forall>x \<in> set s. \<forall>v. duration_minutes x = Some v \<longrightarrow> 0 \<le> v) \<longrightarrow>
        participantData (filter (\<lambda>x. usable_duration (duration_minutes x)) s) = participantData s)"
proof (intro conjI impI)
  show "an_sessionAnalytics (useAdvancedAnalytics nt clock s p d r) =
       sessionAnalytics (map Fin (positive_durations s))
         (map Fin (positive_durations
            (getPreviousPeriodData (clock 0) created_at s (periodDays r))))"
    by (rule sessionAnalytics_of_hook)
  show "\<forall>v \<in> set (positive_durations s). 0 < v"
    by (auto dest: positive_durations_pos)
  show "an_sessionAnalytics (useAdvancedAnalytics nt clock nonzero p d r) =
       an_sessionAnalytics (useAdvancedAnalytics nt clock s p d r)"
    unfolding nonzero_def
    by (simp add: sessionAnalytics_of_hook previous_filter positive_durations_nonzero)
  have created: "created_at (zero_as_null x) = created_at x" for x
    by (simp add: zero_as_null_def)
  show "an_sessionAnalytics (useAdvancedAnalytics nt clock nulled p d r) =
       an_sessionAnalytics (useAdvancedAnalytics nt clock s p d r)"
    unfolding nulled_def
    by (simp add: sessionAnalytics_of_hook previous_map [of zero_as_null, OF created]
        positive_durations_zero_as_null)
  show "participantData nonzero = participantData s"
    unfolding nonzero_def by (rule participantData_skip) (simp add: truthy_number_def)
  show "participantData nulled = participantData s"
    unfolding nulled_def by (rule participantData_zero_as_null)
  show "an_correlations (useAdvancedAnalytics nt clock nulled p d r) =
       an_correlations (useAdvancedAnalytics nt clock s p d r)"
    unfolding nulled_def
    by (simp add: correlations_of_hook correlations_def participantData_zero_as_null)
next
  assume inv: "\<forall>x \<in> set s. \<forall>v. duration_minutes x = Some v \<longrightarrow> 0 \<le> v"
  show "participantData (filter (\<lambda>x. usable_duration (duration_minutes x)) s) = participantData s"
  proof (rule participantData_skip)
    fix x assume "x \<in> set s" and "\<not> usable_duration (duration_minutes x)"
    then show "\<not> truthy_number (duration_minutes x)"
      using inv by (fastforce simp: usable_duration_def truthy_number_def split: option.splits)
  qed
qed

theorem zero_durations_excluded_witness:
  "an_sessionAnalytics (useAdvancedAnalytics (\<lambda>r. []) (\<lambda>n. 0) [zero_session, long_session] [] [] Range_all)
     = an_sessionAnalytics (useAdvancedAnalytics (\<lambda>r. []) (\<lambda>n. 0) [long_session] [] [] Range_all) \<and>
   participantData [zero_session, long_session] = participantData [long_session] \<and>
   list_all (\<lambda>v. 0 < v) (positive_durations [zero_session, long_session]) \<and>
   positive_durations [zero_session, long_session] = [45]"
proof -
  have f1: "filter (\<lambda>x. duration_minutes x \<noteq> Some 0) [zero_session, long_session] = [long_session]"
    by (simp add: zero_session_def long_session_def)
  have f2: "filter (\<lambda>x. usable_duration (duration_minutes x)) [zero_session, long_session] = [long_session]"
    by (simp add: zero_session_def long_session_def usable_duration_def)
  have inv: "\<forall>x \<in> set [zero_session, long_session]. \<forall>v. duration_minutes x = Some v \<longrightarrow> 0 \<le> v"
    by (simp add: zero_session_def long_session_def)
  have pd: "positive_durations [zero_session, long_session] = [45]"
    by (simp add: zero_session_def long_session_def)
  show ?thesis
    using zero_durations_excluded [where nt = "\<lambda>r. []" and clock = "\<lambda>n. 0"
        and s = "[zero_session, long_session]" and p = "[]" and d = "[]" and r = Range_all]
      inv pd
    unfolding f1 f2 by (simp add: list_all_iff)
qed

section \<open>The demographic distribution\<close>




















section \<open>The snapshot as a function of the inputs and the time\<close>



section \<open>Every number of the snapshot is finite\<close>

















lemma jabs_finite [simp]: "is_finite (jabs v) = is_finite v"
  by (cases v) simp_all






















end
